theory Spec2Isabelle
  imports Main
begin

section \<open>JavaScript values used by the client\<close>

text \<open>
  A JavaScript string is a sequence of UTF-16 code units; a code unit is a natural
  number here. \<open>lit\<close> turns a literal of the source into that sequence. The empty string
  is the only falsy string.
\<close>

type_synonym jsstring = "nat list"

definition lit :: "string \<Rightarrow> jsstring" where
  "lit cs = map of_char cs"

definition truthy :: "jsstring \<Rightarrow> bool" where
  "truthy s = (s \<noteq> [])"

text \<open>
  \<open>String.prototype.trim\<close> removes the code units of ECMAScript's WhiteSpace and
  LineTerminator productions from both ends of the string.
\<close>

definition is_ws :: "nat \<Rightarrow> bool" where
  "is_ws c = (c \<in> {0x09, 0x0A, 0x0B, 0x0C, 0x0D, 0x20, 0xA0, 0x1680,
      0x2000, 0x2001, 0x2002, 0x2003, 0x2004, 0x2005, 0x2006, 0x2007, 0x2008, 0x2009, 0x200A,
      0x2028, 0x2029, 0x202F, 0x205F, 0x3000, 0xFEFF})"

definition trim :: "jsstring \<Rightarrow> jsstring" where
  "trim s = rev (dropWhile is_ws (rev (dropWhile is_ws s)))"

text \<open>
  \<open>e.response?.data?.message || fallback\<close>: the message of a failed request is absent
  (\<open>None\<close>) when the error has no response, no body or no message field; an absent or
  empty message gives the fallback.
\<close>

type_synonym failure = "jsstring option"

fun message_or :: "failure \<Rightarrow> jsstring \<Rightarrow> jsstring" where
  "message_or None fallback = fallback"
| "message_or (Some m) fallback = (if truthy m then m else fallback)"

section \<open>Data of the room service\<close>

text \<open>
  The records of the responses of \<open>GET /rooms/code/{code}\<close>, with the fields the client
  reads. \<open>optionId\<close> of a final decision may be missing; \<open>room\<close> of the response may be
  null.
\<close>

record option_rec =
  opt_id :: jsstring
  opt_text :: jsstring

record final_decision =
  optionId :: "jsstring option"

record room_rec =
  room_id :: jsstring
  title :: jsstring
  description :: jsstring
  creatorId :: jsstring
  votingOpen :: bool
  finalDecision :: "final_decision option"

record room_data =
  d_room :: "room_rec option"
  d_options :: "option_rec list"
  d_hasVoted :: bool

record close_data =
  tie :: bool
  tied :: "jsstring list"

record tiebreak_data =
  winnerOptionId :: jsstring

text \<open>The body of a request: the fields of its JSON object.\<close>

datatype json = JString jsstring | JStrings "jsstring list" | JZero | JNumberOf jsstring

datatype request = Get jsstring | Post jsstring "(string \<times> json) list"

section \<open>Effects of a handler\<close>

text \<open>
  A handler is an asynchronous function. Its model takes the state the handler was
  created in and the response of every request it awaits, and returns the trace of
  what it does, in program order, with the state it leaves. \<open>Commit s\<close> marks the end
  of a run of state updates made with no \<open>await\<close> or request between them: React
  applies them as one batch (the application is mounted with \<open>createRoot\<close>), so the
  committed states are the only ones a render can see. \<open>Loaded s\<close> is such a commit in
  which \<open>setRoom\<close> stored the room object of a response, an object the state has not held
  before. Handlers are run one at a time: two handlers whose awaits overlap are outside
  this model.
\<close>

datatype level = Success | Error | Info

datatype 's event =
    Call request
  | Toast level jsstring
  | Navigate jsstring
  | Login jsstring jsstring
  | Commit 's
  | Loaded 's

definition calls :: "'s event list \<Rightarrow> request list" where
  "calls tr = concat (map (\<lambda>e. case e of Call r \<Rightarrow> [r] | _ \<Rightarrow> []) tr)"

definition toasts :: "'s event list \<Rightarrow> (level \<times> jsstring) list" where
  "toasts tr = concat (map (\<lambda>e. case e of Toast l m \<Rightarrow> [(l, m)] | _ \<Rightarrow> []) tr)"

definition commits :: "'s event list \<Rightarrow> 's list" where
  "commits tr = concat (map (\<lambda>e. case e of Commit s \<Rightarrow> [s] | Loaded s \<Rightarrow> [s] | _ \<Rightarrow> []) tr)"

section \<open>The room view\<close>

text \<open>The state of \<open>Room\<close>, one field for each \<open>useState\<close>, with its initial value.\<close>

record room_state =
  loading :: bool
  room :: "room_rec option"
  options :: "option_rec list"
  optionText :: jsstring
  hasVoted :: bool
  selectedOptionId :: "jsstring option"
  voteCasting :: bool
  votingClosing :: bool
  tiebreakerMethod :: jsstring
  tiedOptionIds :: "jsstring list"
  tiebreaking :: bool
  finalOptionText :: "jsstring option"
  shareLink :: jsstring

definition init_state :: room_state where
  "init_state = \<lparr> loading = True, room = None, options = [], optionText = [],
     hasVoted = False, selectedOptionId = None, voteCasting = False, votingClosing = False,
     tiebreakerMethod = [], tiedOptionIds = [], tiebreaking = False,
     finalOptionText = None, shareLink = [] \<rparr>"

text \<open>
  What the component reads from outside its state: the route parameter, the origin of
  the window and the e-mail of the authenticated user (null until it is known).
\<close>

record props =
  roomCode :: jsstring
  origin :: jsstring
  authEmail :: "jsstring option"

text \<open>\<open>room?.creatorId === auth.email || false\<close>\<close>

definition isCreator :: "props \<Rightarrow> room_state \<Rightarrow> bool" where
  "isCreator p s = (case room s of None \<Rightarrow> False | Some r \<Rightarrow> Some (creatorId r) = authEmail p)"

subsection \<open>loadRoom\<close>

text \<open>\<open>data.room.finalDecision?.optionId\<close>, when it is truthy.\<close>

definition final_ref :: "room_rec \<Rightarrow> jsstring option" where
  "final_ref r = (case finalDecision r of
       None \<Rightarrow> None
     | Some fd \<Rightarrow> (case optionId fd of
         None \<Rightarrow> None
       | Some i \<Rightarrow> if truthy i then Some i else None))"

text \<open>The text \<open>loadRoom\<close> stores as \<open>finalOptionText\<close>, from the room and options of the response.\<close>

definition resolve_final :: "room_rec \<Rightarrow> option_rec list \<Rightarrow> jsstring option" where
  "resolve_final r os = (case final_ref r of
       None \<Rightarrow> None
     | Some i \<Rightarrow> (case find (\<lambda>x. opt_id x = i) os of
         Some found \<Rightarrow> Some (opt_text found)
       | None \<Rightarrow> Some []))"

definition room_url :: "jsstring \<Rightarrow> jsstring" where
  "room_url code = lit ''/rooms/code/'' @ code"

text \<open>
  The response with a null room: the three setters before \<open>data.room.finalDecision\<close> have
  run when that expression throws, and the handler of the exception runs in the same turn.
\<close>

definition loadRoom :: "props \<Rightarrow> failure + room_data \<Rightarrow> room_state \<Rightarrow> room_state event list \<times> room_state" where
  "loadRoom p resp s =
     (case resp of
        Inl e \<Rightarrow>
          (let s' = s\<lparr>loading := False\<rparr>
           in ([Call (Get (room_url (roomCode p))),
                Toast Error (lit ''Failed to load room data''), Commit s'], s'))
      | Inr d \<Rightarrow>
          (case d_room d of
             None \<Rightarrow>
               (let s' = s\<lparr>room := None, options := d_options d, hasVoted := d_hasVoted d,
                            loading := False\<rparr>
                in ([Call (Get (room_url (roomCode p))),
                     Toast Error (lit ''Failed to load room data''), Commit s'], s'))
           | Some r \<Rightarrow>
               (let s' = s\<lparr>room := Some r, options := d_options d, hasVoted := d_hasVoted d,
                            finalOptionText := resolve_final r (d_options d),
                            shareLink := origin p @ lit ''/room/'' @ roomCode p,
                            loading := False\<rparr>
                in ([Call (Get (room_url (roomCode p))), Loaded s'], s'))))"

subsection \<open>The rendered view\<close>

text \<open>
  What \<open>Room\<close> returns: the loading page, the not-found page, or the page of the room with
  the controls it shows. A string in a condition of the markup counts by its truthiness.
\<close>

datatype row = PlainText jsstring | Radio jsstring bool jsstring | VotedText jsstring bool

record room_view =
  submit_form :: bool
  rows :: "row list"
  vote_button :: bool
  vote_disabled :: bool
  open_voting_button :: bool
  close_voting_button :: bool
  close_disabled :: bool
  final_banner :: "jsstring option"
  tie_prompt :: bool
  tie_methods :: "jsstring list"

datatype page = LoadingPage | NotFoundPage | RoomPage room_view

definition selected :: "room_state \<Rightarrow> bool" where
  "selected s = (case selectedOptionId s of None \<Rightarrow> False | Some i \<Rightarrow> truthy i)"

definition final_shown :: "room_state \<Rightarrow> bool" where
  "final_shown s = (case finalOptionText s of None \<Rightarrow> False | Some t \<Rightarrow> truthy t)"

definition render_row :: "room_rec \<Rightarrow> room_state \<Rightarrow> option_rec \<Rightarrow> row" where
  "render_row r s opt =
     (if \<not> votingOpen r then PlainText (opt_text opt)
      else if \<not> hasVoted s then Radio (opt_id opt) (voteCasting s) (opt_text opt)
      else VotedText (opt_text opt) (selectedOptionId s = Some (opt_id opt)))"

definition render :: "props \<Rightarrow> room_state \<Rightarrow> page" where
  "render p s =
     (if loading s then LoadingPage
      else case room s of
        None \<Rightarrow> NotFoundPage
      | Some r \<Rightarrow> RoomPage \<lparr>
          submit_form = (\<not> votingOpen r \<and> \<not> hasVoted s),
          rows = map (render_row r s) (options s),
          vote_button = (votingOpen r \<and> \<not> hasVoted s),
          vote_disabled = (voteCasting s \<or> \<not> selected s),
          open_voting_button = (isCreator p s \<and> \<not> votingOpen r \<and> length (options s) > 0),
          close_voting_button = (isCreator p s \<and> votingOpen r),
          close_disabled = votingClosing s,
          final_banner = (if final_shown s then finalOptionText s else None),
          tie_prompt = (isCreator p s \<and> length (tiedOptionIds s) > 0 \<and> \<not> final_shown s),
          tie_methods = [lit ''dice'', lit ''spinner'', lit ''coin''] \<rparr>)"

text \<open>The actions the page offers: a control that is rendered.\<close>

definition offers_submitOption :: "props \<Rightarrow> room_state \<Rightarrow> bool" where
  "offers_submitOption p s = (case render p s of RoomPage v \<Rightarrow> submit_form v | _ \<Rightarrow> False)"

definition offers_castVote :: "props \<Rightarrow> room_state \<Rightarrow> bool" where
  "offers_castVote p s = (case render p s of RoomPage v \<Rightarrow> vote_button v | _ \<Rightarrow> False)"

definition offers_openVoting :: "props \<Rightarrow> room_state \<Rightarrow> bool" where
  "offers_openVoting p s = (case render p s of RoomPage v \<Rightarrow> open_voting_button v | _ \<Rightarrow> False)"

definition offers_closeVoting :: "props \<Rightarrow> room_state \<Rightarrow> bool" where
  "offers_closeVoting p s = (case render p s of RoomPage v \<Rightarrow> close_voting_button v | _ \<Rightarrow> False)"

definition offers_tiebreaker :: "props \<Rightarrow> room_state \<Rightarrow> bool" where
  "offers_tiebreaker p s = (case render p s of RoomPage v \<Rightarrow> tie_prompt v | _ \<Rightarrow> False)"

subsection \<open>The handlers of the room view\<close>

definition room_path :: "room_rec \<Rightarrow> string \<Rightarrow> jsstring" where
  "room_path r suffix = lit ''/rooms/'' @ room_id r @ lit suffix"

text \<open>
  \<open>submitOption\<close>. With no room, \<open>room._id\<close> throws inside the \<open>try\<close> before any request
  is made, and the error has no response.
\<close>

definition submitOption ::
  "props \<Rightarrow> failure + unit \<Rightarrow> failure + room_data \<Rightarrow> room_state
     \<Rightarrow> room_state event list \<times> room_state" where
  "submitOption p posted loaded s =
     (if \<not> truthy (trim (optionText s)) then ([Toast Error (lit ''Enter option text'')], s)
      else case room s of
        None \<Rightarrow> ([Toast Error (message_or None (lit ''Failed to add option''))], s)
      | Some r \<Rightarrow>
          (case posted of
             Inl e \<Rightarrow>
               ([Call (Post (room_path r ''/options'') [(''text'', JString (trim (optionText s)))]),
                 Toast Error (message_or e (lit ''Failed to add option''))], s)
           | Inr _ \<Rightarrow>
               (let s1 = s\<lparr>optionText := []\<rparr>;
                    (tr, s2) = loadRoom p loaded s1
                in ([Call (Post (room_path r ''/options'') [(''text'', JString (trim (optionText s)))]),
                     Toast Success (lit ''Option added!''), Commit s1] @ tr, s2))))"

definition openVoting ::
  "props \<Rightarrow> failure + unit \<Rightarrow> failure + room_data \<Rightarrow> room_state
     \<Rightarrow> room_state event list \<times> room_state" where
  "openVoting p posted loaded s =
     (case room s of
        None \<Rightarrow> ([], s)
      | Some r \<Rightarrow>
          (case posted of
             Inl e \<Rightarrow>
               ([Call (Post (room_path r ''/open-voting'') []),
                 Toast Error (message_or e (lit ''Failed to open voting''))], s)
           | Inr _ \<Rightarrow>
               (let (tr, s1) = loadRoom p loaded s
                in ([Call (Post (room_path r ''/open-voting'') []),
                     Toast Success (lit ''Voting opened!'')] @ tr, s1))))"

text \<open>
  \<open>vote\<close>. The \<open>finally\<close> block runs after the resynchronizing load has been awaited; with
  no room it runs in the turn that set the flag.
\<close>

definition vote ::
  "props \<Rightarrow> failure + unit \<Rightarrow> failure + room_data \<Rightarrow> room_state
     \<Rightarrow> room_state event list \<times> room_state" where
  "vote p posted loaded s =
     (case selectedOptionId s of
        None \<Rightarrow> ([Toast Error (lit ''Select an option to vote'')], s)
      | Some i \<Rightarrow>
          if \<not> truthy i then ([Toast Error (lit ''Select an option to vote'')], s)
          else (case room s of
            None \<Rightarrow>
              (let s' = s\<lparr>voteCasting := True, voteCasting := False\<rparr>
               in ([Toast Error (message_or None (lit ''Failed to vote'')), Commit s'], s'))
          | Some r \<Rightarrow>
              (let s1 = s\<lparr>voteCasting := True\<rparr>
               in case posted of
                    Inl e \<Rightarrow>
                      (let s' = s1\<lparr>voteCasting := False\<rparr>
                       in ([Commit s1, Call (Post (room_path r ''/vote'') [(''optionId'', JString i)]),
                            Toast Error (message_or e (lit ''Failed to vote'')), Commit s'], s'))
                  | Inr _ \<Rightarrow>
                      (let s2 = s1\<lparr>hasVoted := True\<rparr>;
                           (tr, s3) = loadRoom p loaded s2;
                           s' = s3\<lparr>voteCasting := False\<rparr>
                       in ([Commit s1, Call (Post (room_path r ''/vote'') [(''optionId'', JString i)]),
                            Toast Success (lit ''Vote cast!''), Commit s2] @ tr @ [Commit s'], s')))))"

text \<open>\<open>closeVoting\<close>. The load is made, and its response read, on the branch without a tie only.\<close>

definition closeVoting ::
  "props \<Rightarrow> failure + close_data \<Rightarrow> failure + room_data \<Rightarrow> room_state
     \<Rightarrow> room_state event list \<times> room_state" where
  "closeVoting p posted loaded s =
     (case room s of
        None \<Rightarrow> ([], s)
      | Some r \<Rightarrow>
          (let s1 = s\<lparr>votingClosing := True\<rparr>
           in case posted of
                Inl e \<Rightarrow>
                  (let s' = s1\<lparr>votingClosing := False\<rparr>
                   in ([Commit s1, Call (Post (room_path r ''/close-voting'') []),
                        Toast Error (message_or e (lit ''Failed to close voting'')), Commit s'], s'))
              | Inr d \<Rightarrow>
                  if tie d then
                    (let s' = s1\<lparr>tiedOptionIds := tied d, votingClosing := False\<rparr>
                     in ([Commit s1, Call (Post (room_path r ''/close-voting'') []),
                          Toast Success (lit ''Voting closed!''),
                          Toast Info (lit ''It's a tie! Please choose a tiebreaker.''),
                          Commit s'], s'))
                  else
                    (let (tr, s2) = loadRoom p loaded s1;
                         s' = s2\<lparr>votingClosing := False\<rparr>
                     in ([Commit s1, Call (Post (room_path r ''/close-voting'') []),
                          Toast Success (lit ''Voting closed!''),
                          Toast Info (lit ''Decision made!'')] @ tr @ [Commit s'], s'))))"

text \<open>\<open>winnerOpt?.text || fallback\<close>, with \<open>winnerOpt\<close> found in the options the handler holds.\<close>

definition winner_text :: "option_rec list \<Rightarrow> jsstring \<Rightarrow> jsstring \<Rightarrow> jsstring" where
  "winner_text os w fallback =
     (case find (\<lambda>x. opt_id x = w) os of
        None \<Rightarrow> fallback
      | Some x \<Rightarrow> if truthy (opt_text x) then opt_text x else fallback)"

definition triggerTiebreaker ::
  "props \<Rightarrow> jsstring \<Rightarrow> failure + tiebreak_data \<Rightarrow> failure + room_data \<Rightarrow> room_state
     \<Rightarrow> room_state event list \<times> room_state" where
  "triggerTiebreaker p method posted loaded s =
     (case room s of
        None \<Rightarrow> ([], s)
      | Some r \<Rightarrow>
          (let s1 = s\<lparr>tiebreaking := True, tiebreakerMethod := method\<rparr>;
               req = Post (room_path r ''/tiebreaker'')
                       [(''method'', JString method), (''tiedOptionIds'', JStrings (tiedOptionIds s))]
           in case posted of
                Inl e \<Rightarrow>
                  (let s' = s1\<lparr>tiebreaking := False, tiebreakerMethod := []\<rparr>
                   in ([Commit s1, Call req,
                        Toast Error (message_or e (lit ''Failed to trigger tiebreaker'')),
                        Commit s'], s'))
              | Inr d \<Rightarrow>
                  (let s2 = s1\<lparr>finalOptionText :=
                                  Some (winner_text (options s) (winnerOptionId d) (lit ''Unknown'')),
                                tiedOptionIds := []\<rparr>;
                       (tr, s3) = loadRoom p loaded s2;
                       s' = s3\<lparr>tiebreaking := False, tiebreakerMethod := []\<rparr>
                   in ([Commit s1, Call req,
                        Toast Success (method @ lit '' tiebreaker done! Winner: ''
                          @ winner_text (options s) (winnerOptionId d) (lit ''N/A'')),
                        Commit s2] @ tr @ [Commit s'], s'))))"

subsection \<open>The states the room view can be in\<close>

text \<open>
  The states of a mounted \<open>Room\<close>: the initial one, and every state committed by a
  handler or by an input of the page, started in such a state, whatever the responses
  and the properties are. The inputs are the text field of the option form and the
  radio buttons of the options.
\<close>

inductive reachable :: "room_state \<Rightarrow> bool" where
  r_init: "reachable init_state"
| r_type: "reachable s \<Longrightarrow> reachable (s\<lparr>optionText := t\<rparr>)"
| r_select: "reachable s \<Longrightarrow> x \<in> set (options s) \<Longrightarrow> reachable (s\<lparr>selectedOptionId := Some (opt_id x)\<rparr>)"
| r_load: "reachable s \<Longrightarrow> s' \<in> set (commits (fst (loadRoom p loaded s))) \<Longrightarrow> reachable s'"
| r_submit: "reachable s \<Longrightarrow> s' \<in> set (commits (fst (submitOption p posted loaded s))) \<Longrightarrow> reachable s'"
| r_open: "reachable s \<Longrightarrow> s' \<in> set (commits (fst (openVoting p posted loaded s))) \<Longrightarrow> reachable s'"
| r_vote: "reachable s \<Longrightarrow> s' \<in> set (commits (fst (vote p posted loaded s))) \<Longrightarrow> reachable s'"
| r_close: "reachable s \<Longrightarrow> s' \<in> set (commits (fst (closeVoting p closed loaded s))) \<Longrightarrow> reachable s'"
| r_tiebreak: "reachable s \<Longrightarrow> s' \<in> set (commits (fst (triggerTiebreaker p m broken loaded s))) \<Longrightarrow> reachable s'"

subsection \<open>The mounted room view and its poll timer\<close>

text \<open>
  A mounted \<open>Room\<close>: its state and properties, the intervals it has set that are still
  pending, and the interval that the cleanup of the polling effect will clear. An
  interval holds the identifier \<open>setInterval\<close> returned, its period in milliseconds and
  the room code of the \<open>loadRoom\<close> it calls. Time itself is not modelled: an interval that
  is pending may fire at any step. Effects run as in a production build: the second
  run of every effect that \<open>StrictMode\<close> adds in development is left out.
\<close>

record interval =
  iv_id :: nat
  iv_period :: nat
  iv_code :: jsstring

record room_inst =
  st :: room_state
  pr :: props
  alive :: bool
  timers :: "interval list"
  poll_cleanup :: "nat option"
  next_timer :: nat

text \<open>The body of the polling effect, and the cleanup function it returned the last time.\<close>

definition poll_effect :: "room_inst \<Rightarrow> room_inst" where
  "poll_effect v =
     (case room (st v) of
        None \<Rightarrow> v\<lparr>poll_cleanup := None\<rparr>
      | Some r \<Rightarrow>
          if \<not> votingOpen r then v\<lparr>poll_cleanup := None\<rparr>
          else v\<lparr>timers := timers v @
                    [\<lparr>iv_id = next_timer v, iv_period = 5000, iv_code = roomCode (pr v)\<rparr>],
                 poll_cleanup := Some (next_timer v),
                 next_timer := Suc (next_timer v)\<rparr>)"

definition run_cleanup :: "room_inst \<Rightarrow> room_inst" where
  "run_cleanup v =
     (case poll_cleanup v of
        None \<Rightarrow> v
      | Some i \<Rightarrow> v\<lparr>timers := filter (\<lambda>t. iv_id t \<noteq> i) (timers v), poll_cleanup := None\<rparr>)"

text \<open>
  React runs the cleanup and then the effect again after a commit in which a dependency
  of the effect, \<open>room\<close> or \<open>loadRoom\<close>, is another object than before. A \<open>Loaded\<close> commit
  holds a new room object; any other commit holds the room it held before, or null.
\<close>

fun apply_event :: "room_state event \<Rightarrow> room_inst \<Rightarrow> room_inst" where
  "apply_event (Loaded s') v = poll_effect (run_cleanup (v\<lparr>st := s'\<rparr>))"
| "apply_event (Commit s') v =
     (if room s' \<noteq> room (st v) then poll_effect (run_cleanup (v\<lparr>st := s'\<rparr>)) else v\<lparr>st := s'\<rparr>)"
| "apply_event _ v = v"

definition apply_trace :: "room_state event list \<Rightarrow> room_inst \<Rightarrow> room_inst" where
  "apply_trace tr v = fold apply_event tr v"

text \<open>
  Mounting runs both effects after the first render: the first calls \<open>loadRoom\<close>, the
  second finds no room and sets no interval; then the response of the load arrives.
\<close>

definition mount :: "props \<Rightarrow> failure + room_data \<Rightarrow> room_state event list \<times> room_inst" where
  "mount p loaded =
     (let v = poll_effect \<lparr>st = init_state, pr = p, alive = True, timers = [],
                            poll_cleanup = None, next_timer = 0\<rparr>;
          tr = fst (loadRoom p loaded init_state)
      in (tr, apply_trace tr v))"

text \<open>
  What can happen to a mounted view: an interval fires, the user types or selects, a
  handler runs, the room code of the route changes, the view is unmounted. Each comes
  with the responses of the requests it makes.
\<close>

datatype action =
    Tick nat "failure + room_data"
  | TypeText jsstring
  | Select jsstring
  | Submit "failure + unit" "failure + room_data"
  | OpenVoting "failure + unit" "failure + room_data"
  | Vote "failure + unit" "failure + room_data"
  | CloseVoting "failure + close_data" "failure + room_data"
  | Tiebreak jsstring "failure + tiebreak_data" "failure + room_data"
  | ChangeCode jsstring "failure + room_data"
  | Unmount

definition handle :: "room_state event list \<times> room_state \<Rightarrow> room_inst \<Rightarrow> room_state event list \<times> room_inst" where
  "handle res v = (fst res, apply_trace (fst res) v)"

fun step :: "action \<Rightarrow> room_inst \<Rightarrow> room_state event list \<times> room_inst" where
  "step (Tick i loaded) v =
     (case find (\<lambda>t. iv_id t = i) (timers v) of
        None \<Rightarrow> ([], v)
      | Some t \<Rightarrow> handle (loadRoom ((pr v)\<lparr>roomCode := iv_code t\<rparr>) loaded (st v)) v)"
| "step (TypeText t) v = handle ([Commit ((st v)\<lparr>optionText := t\<rparr>)], (st v)\<lparr>optionText := t\<rparr>) v"
| "step (Select i) v =
     handle ([Commit ((st v)\<lparr>selectedOptionId := Some i\<rparr>)], (st v)\<lparr>selectedOptionId := Some i\<rparr>) v"
| "step (Submit posted loaded) v = handle (submitOption (pr v) posted loaded (st v)) v"
| "step (OpenVoting posted loaded) v = handle (openVoting (pr v) posted loaded (st v)) v"
| "step (Vote posted loaded) v = handle (vote (pr v) posted loaded (st v)) v"
| "step (CloseVoting posted loaded) v = handle (closeVoting (pr v) posted loaded (st v)) v"
| "step (Tiebreak m posted loaded) v = handle (triggerTiebreaker (pr v) m posted loaded (st v)) v"
| "step (ChangeCode c loaded) v =
     (if c = roomCode (pr v) then ([], v)
      else let v1 = poll_effect (run_cleanup (v\<lparr>pr := (pr v)\<lparr>roomCode := c\<rparr>\<rparr>))
           in handle (loadRoom (pr v1) loaded (st v1)) v1)"
| "step Unmount v = ([], (run_cleanup v)\<lparr>alive := False\<rparr>)"

text \<open>A run of the view: nothing happens to a view that is unmounted.\<close>

fun run :: "action list \<Rightarrow> room_inst \<Rightarrow> room_inst" where
  "run [] v = v"
| "run (a # as) v = (if alive v then run as (snd (step a v)) else v)"

definition poll_pending :: "room_inst \<Rightarrow> bool" where
  "poll_pending v = (alive v \<and> (case room (st v) of None \<Rightarrow> False | Some r \<Rightarrow> votingOpen r))"


text \<open>
  The state a handler returns is the last one it committed, or the one it started in
  when it committed none.
\<close>

definition ends_in :: "'s \<Rightarrow> 's event list \<times> 's \<Rightarrow> bool" where
  "ends_in s res = (snd res = (if commits (fst res) = [] then s else last (commits (fst res))))"

text \<open>
  The polling effect keeps this: the view has an interval pending exactly while it is
  mounted and holds a room with voting open, and then it is the one interval its
  cleanup will clear, of 5000 milliseconds, calling \<open>loadRoom\<close> for the room code of the
  route.
\<close>

definition poll_ok :: "room_inst \<Rightarrow> bool" where
  "poll_ok v =
     (case poll_cleanup v of
        None \<Rightarrow> timers v = [] \<and> \<not> poll_pending v
      | Some i \<Rightarrow> poll_pending v \<and> i < next_timer v
          \<and> timers v = [\<lparr>iv_id = i, iv_period = 5000, iv_code = roomCode (pr v)\<rparr>])"



section \<open>The home page\<close>

record home_state =
  roomCodeInput :: jsstring
  creating :: bool
  newRoomTitle :: jsstring
  newRoomDesc :: jsstring
  newRoomMaxP :: jsstring

record create_data =
  c_roomCode :: jsstring

text \<open>
  \<open>createRoom\<close>. \<open>Number(newRoomMaxP)\<close> is kept as the string it is applied to.
\<close>

definition createRoom :: "failure + create_data \<Rightarrow> home_state \<Rightarrow> home_state event list \<times> home_state" where
  "createRoom posted h =
     (if \<not> truthy (trim (newRoomTitle h)) then ([Toast Error (lit ''Room title is required'')], h)
      else
        (let h1 = h\<lparr>creating := True\<rparr>;
             h' = h1\<lparr>creating := False\<rparr>;
             req = Post (lit ''/rooms'')
                     [(''title'', JString (trim (newRoomTitle h))),
                      (''description'', JString (trim (newRoomDesc h))),
                      (''maxParticipants'',
                         if truthy (newRoomMaxP h) then JNumberOf (newRoomMaxP h) else JZero)]
         in case posted of
              Inl e \<Rightarrow>
                ([Commit h1, Call req, Toast Error (message_or e (lit ''Failed to create room'')),
                  Commit h'], h')
            | Inr d \<Rightarrow>
                ([Commit h1, Call req, Toast Success (lit ''Room created! Redirecting...''),
                  Navigate (lit ''/room/'' @ c_roomCode d), Commit h'], h')))"

text \<open>
  \<open>joinRoom\<close>, and the \<open>onChange\<close> of the room code field. \<open>String.prototype.toUpperCase\<close>
  is a parameter, \<open>upper\<close>.
\<close>

definition joinRoom ::
  "(jsstring \<Rightarrow> jsstring) \<Rightarrow> failure + unit \<Rightarrow> home_state \<Rightarrow> home_state event list \<times> home_state" where
  "joinRoom upper posted h =
     (let code = trim (roomCodeInput h)
      in if \<not> truthy code then ([Toast Error (lit ''Enter room code'')], h)
         else case posted of
                Inl e \<Rightarrow>
                  ([Call (Post (lit ''/rooms/join'') [(''roomCode'', JString (upper code))]),
                    Toast Error (message_or e (lit ''Failed to join room''))], h)
              | Inr _ \<Rightarrow>
                  ([Call (Post (lit ''/rooms/join'') [(''roomCode'', JString (upper code))]),
                    Toast Success (lit ''Joined room! Redirecting...''),
                    Navigate (lit ''/room/'' @ upper code)], h))"

definition changeRoomCode :: "(jsstring \<Rightarrow> jsstring) \<Rightarrow> jsstring \<Rightarrow> home_state \<Rightarrow> home_state" where
  "changeRoomCode upper v h = h\<lparr>roomCodeInput := upper v\<rparr>"

section \<open>Login, signup and past decisions\<close>

record auth_form =
  f_email :: jsstring
  f_password :: jsstring
  f_loading :: bool

record auth_data =
  a_token :: jsstring
  a_email :: jsstring

definition auth_submit ::
  "string \<Rightarrow> string \<Rightarrow> string \<Rightarrow> failure + auth_data \<Rightarrow> auth_form \<Rightarrow> auth_form event list \<times> auth_form" where
  "auth_submit url welcome fallback posted f =
     (let f1 = f\<lparr>f_loading := True\<rparr>;
          f' = f1\<lparr>f_loading := False\<rparr>;
          req = Post (lit url) [(''email'', JString (f_email f)), (''password'', JString (f_password f))]
      in case posted of
           Inl e \<Rightarrow> ([Commit f1, Call req, Toast Error (message_or e (lit fallback)), Commit f'], f')
         | Inr d \<Rightarrow>
             ([Commit f1, Call req, Login (a_token d) (a_email d), Toast Success (lit welcome),
               Navigate (lit ''/''), Commit f'], f'))"

text \<open>\<open>handleSubmit\<close> of \<open>Login\<close> and of \<open>Signup\<close>.\<close>

definition login_submit :: "failure + auth_data \<Rightarrow> auth_form \<Rightarrow> auth_form event list \<times> auth_form" where
  "login_submit = auth_submit ''/auth/login'' ''Logged in!'' ''Login failed''"

definition signup_submit :: "failure + auth_data \<Rightarrow> auth_form \<Rightarrow> auth_form event list \<times> auth_form" where
  "signup_submit = auth_submit ''/auth/signup'' ''Account created!'' ''Signup failed''"

record 'r past_state =
  past_rooms :: "'r list"
  past_loading :: bool

text \<open>\<open>fetchPast\<close> of \<open>PastDecisions\<close>; the type of a past room is left open.\<close>

definition fetchPast :: "failure + 'r list \<Rightarrow> 'r past_state \<Rightarrow> 'r past_state event list \<times> 'r past_state" where
  "fetchPast got s =
     (case got of
        Inl e \<Rightarrow>
          (let s' = s\<lparr>past_loading := False\<rparr>
           in ([Call (Get (lit ''/rooms/past/rooms'')),
                Toast Error (lit ''Failed to load past decisions''), Commit s'], s'))
      | Inr d \<Rightarrow>
          (let s' = s\<lparr>past_rooms := d, past_loading := False\<rparr>
           in ([Call (Get (lit ''/rooms/past/rooms'')), Commit s'], s')))"

section \<open>Sample data\<close>

text \<open>Concrete rooms, responses and states on which the properties below are run.\<close>

definition ann :: props where
  "ann = \<lparr>roomCode = lit ''LUNCH1'', origin = lit ''http://localhost:3000'',
           authEmail = Some (lit ''ann@example.org'')\<rparr>"

definition pizza :: option_rec where
  "pizza = \<lparr>opt_id = lit ''o1'', opt_text = lit ''Pizza''\<rparr>"

definition sushi :: option_rec where
  "sushi = \<lparr>opt_id = lit ''o2'', opt_text = lit ''Sushi''\<rparr>"

definition lunch :: "bool \<Rightarrow> final_decision option \<Rightarrow> room_rec" where
  "lunch open_now fd = \<lparr>room_id = lit ''r1'', title = lit ''Lunch'', description = [],
     creatorId = lit ''ann@example.org'', votingOpen = open_now, finalDecision = fd\<rparr>"

definition lunch_data :: "bool \<Rightarrow> final_decision option \<Rightarrow> bool \<Rightarrow> room_data" where
  "lunch_data open_now fd voted =
     \<lparr>d_room = Some (lunch open_now fd), d_options = [pizza, sushi], d_hasVoted = voted\<rparr>"

definition tie_answer :: close_data where
  "tie_answer = \<lparr>tie = True, tied = [lit ''o1'', lit ''o2'']\<rparr>"

definition no_tie_answer :: close_data where
  "no_tie_answer = \<lparr>tie = False, tied = []\<rparr>"

text \<open>The view after its first load of the room, with voting open or closed.\<close>

definition lunch_state :: "bool \<Rightarrow> final_decision option \<Rightarrow> bool \<Rightarrow> room_state" where
  "lunch_state open_now fd voted = snd (loadRoom ann (Inr (lunch_data open_now fd voted)) init_state)"

text \<open>The final decision for the first option, and the response that reports it.\<close>

definition for_pizza :: "final_decision option" where
  "for_pizza = Some \<lparr>optionId = Some (lit ''o1'')\<rparr>"

text \<open>The open room after its creator closed the voting and the service answered with a tie.\<close>

definition tied_state :: room_state where
  "tied_state = snd (closeVoting ann (Inr tie_answer) (Inl None) (lunch_state True None False))"

text \<open>The loaded room with a text in the option form, and with an option selected.\<close>

definition typing :: "string \<Rightarrow> room_state" where
  "typing cs = (lunch_state False None False)\<lparr>optionText := lit cs\<rparr>"

definition choosing :: "jsstring option \<Rightarrow> room_state" where
  "choosing i = (lunch_state True None False)\<lparr>selectedOptionId := i\<rparr>"

text \<open>The home page with a text in the room code field.\<close>

definition home_with :: "string \<Rightarrow> home_state" where
  "home_with cs = \<lparr>roomCodeInput = lit cs, creating = False, newRoomTitle = [],
     newRoomDesc = [], newRoomMaxP = []\<rparr>"

text \<open>
  The tied room after a load that reports a final decision for an option that is not
  among the options of the response.
\<close>

definition for_unknown :: "final_decision option" where
  "for_unknown = Some \<lparr>optionId = Some (lit ''o9'')\<rparr>"

definition unresolved_state :: room_state where
  "unresolved_state = snd (loadRoom ann (Inr (lunch_data False for_unknown True)) tied_state)"

text \<open>The same route seen by a participant who did not create the room.\<close>

definition bob :: props where
  "bob = ann\<lparr>authEmail := Some (lit ''bob@example.org'')\<rparr>"

text \<open>The view of the creator, mounted on the room with voting open.\<close>

definition mounted_open :: room_inst where
  "mounted_open = snd (mount ann (Inr (lunch_data True None False)))"




text \<open>An upper-casing of the letters a to z, to stand for \<open>toUpperCase\<close> on them.\<close>

definition ascii_upper :: "jsstring \<Rightarrow> jsstring" where
  "ascii_upper s = map (\<lambda>c. if 97 \<le> c \<and> c \<le> 122 then c - 32 else c) s"

section \<open>Properties\<close>

subsection \<open>Reading a trace\<close>

lemma commits_simps [simp]:
  "commits [] = []"
  "commits (Call r # tr) = commits tr"
  "commits (Toast l m # tr) = commits tr"
  "commits (Navigate u # tr) = commits tr"
  "commits (Login a b # tr) = commits tr"
  "commits (Commit s # tr) = s # commits tr"
  "commits (Loaded s # tr) = s # commits tr"
  "commits (tr @ tr') = commits tr @ commits tr'"
  by (simp_all add: commits_def)

lemma calls_simps [simp]:
  "calls [] = []"
  "calls (Call r # tr) = r # calls tr"
  "calls (Toast l m # tr) = calls tr"
  "calls (Navigate u # tr) = calls tr"
  "calls (Login a b # tr) = calls tr"
  "calls (Commit s # tr) = calls tr"
  "calls (Loaded s # tr) = calls tr"
  "calls (tr @ tr') = calls tr @ calls tr'"
  by (simp_all add: calls_def)

lemma toasts_simps [simp]:
  "toasts [] = []"
  "toasts (Call r # tr) = toasts tr"
  "toasts (Toast l m # tr) = (l, m) # toasts tr"
  "toasts (Navigate u # tr) = toasts tr"
  "toasts (Login a b # tr) = toasts tr"
  "toasts (Commit s # tr) = toasts tr"
  "toasts (Loaded s # tr) = toasts tr"
  "toasts (tr @ tr') = toasts tr @ toasts tr'"
  by (simp_all add: toasts_def)

subsection \<open>A view that holds a room has left its loading page\<close>

lemma reachable_loaded: "reachable s \<Longrightarrow> room s = Some r \<Longrightarrow> \<not> loading s"
proof (induction arbitrary: r rule: reachable.induct)
  case r_init
  then show ?case by (simp add: init_state_def)
next
  case (r_load s s' p loaded)
  then show ?case
    by (auto simp: Let_def loadRoom_def split: if_splits sum.splits option.splits prod.splits)
next
  case (r_submit s s' p posted loaded)
  then show ?case
    by (auto simp: submitOption_def Let_def loadRoom_def
        split: if_splits sum.splits option.splits prod.splits)
next
  case (r_open s s' p posted loaded)
  then show ?case
    by (auto simp: openVoting_def Let_def loadRoom_def
        split: if_splits sum.splits option.splits prod.splits)
next
  case (r_vote s s' p posted loaded)
  then show ?case
    by (auto simp: vote_def Let_def loadRoom_def
        split: if_splits sum.splits option.splits prod.splits)
next
  case (r_close s s' p posted loaded)
  then show ?case
    by (auto simp: closeVoting_def Let_def loadRoom_def
        split: if_splits sum.splits option.splits prod.splits)
next
  case (r_tiebreak s s' p m posted loaded)
  then show ?case
    by (auto simp: triggerTiebreaker_def Let_def loadRoom_def
        split: if_splits sum.splits option.splits prod.splits)
qed auto

lemma lunch_state_eq:
  "lunch_state b fd v = init_state\<lparr>room := Some (lunch b fd), options := [pizza, sushi],
     hasVoted := v, finalOptionText := resolve_final (lunch b fd) [pizza, sushi],
     shareLink := origin ann @ lit ''/room/'' @ roomCode ann, loading := False\<rparr>"
  by (simp add: lunch_state_def lunch_data_def loadRoom_def Let_def)

lemma lunch_state_reachable: "reachable (lunch_state b fd v)"
  unfolding lunch_state_def
  by (rule r_load [OF r_init, of _ ann "Inr (lunch_data b fd v)"])
     (simp add: loadRoom_def lunch_data_def Let_def)

subsection \<open>The actions of a room whose voting is closed\<close>

text \<open>
  C1, as the code has it. In every state of the view that holds a room whose
  \<open>votingOpen\<close> is false, the vote action is not offered, and the option form is offered
  exactly when the has-voted flag is false: the form is rendered under
  \<open>!room.votingOpen && !hasVoted\<close>.
\<close>

theorem closed_room_actions:
  assumes "reachable s" and "room s = Some r" and "\<not> votingOpen r"
  shows "(offers_submitOption p s \<longleftrightarrow> \<not> hasVoted s) \<and> \<not> offers_castVote p s"
proof -
  have "\<not> loading s" using assms(1,2) by (rule reachable_loaded)
  then show ?thesis using assms(2,3)
    by (simp add: offers_submitOption_def offers_castVote_def render_def)
qed

text \<open>
  The theorem at the room loaded with voting closed and no vote cast: the form is
  offered, the vote is not.
\<close>

theorem closed_room_actions_witness:
  "reachable (lunch_state False None False)
   \<and> room (lunch_state False None False) = Some (lunch False None)
   \<and> \<not> votingOpen (lunch False None) \<and> \<not> hasVoted (lunch_state False None False)
   \<and> offers_submitOption ann (lunch_state False None False)
   \<and> \<not> offers_castVote ann (lunch_state False None False)"
  using closed_room_actions [of "lunch_state False None False" "lunch False None" ann]
    lunch_state_reachable [of False None False]
  by (simp add: lunch_state_eq lunch_def)

text \<open>
  C1 as it is written fails where the participant has voted: the room is loaded with
  voting closed and the has-voted flag set, and the option form is not offered.
\<close>

theorem closed_room_voted_counterexample:
  "reachable (lunch_state False None True)
   \<and> room (lunch_state False None True) = Some (lunch False None)
   \<and> \<not> votingOpen (lunch False None) \<and> hasVoted (lunch_state False None True)
   \<and> \<not> offers_submitOption ann (lunch_state False None True)"
  using lunch_state_reachable [of False None True]
  by (simp add: lunch_state_eq lunch_def offers_submitOption_def render_def)

subsection \<open>What a load leaves alone and what it requests\<close>

lemma loadRoom_keeps:
  "tiedOptionIds (snd (loadRoom p loaded s)) = tiedOptionIds s"
  "votingClosing (snd (loadRoom p loaded s)) = votingClosing s"
  "voteCasting (snd (loadRoom p loaded s)) = voteCasting s"
  "tiebreaking (snd (loadRoom p loaded s)) = tiebreaking s"
  "optionText (snd (loadRoom p loaded s)) = optionText s"
  "selectedOptionId (snd (loadRoom p loaded s)) = selectedOptionId s"
  by (simp_all add: loadRoom_def Let_def split: sum.splits option.splits)

lemma loadRoom_calls: "calls (fst (loadRoom p loaded s)) = [Get (room_url (roomCode p))]"
  by (simp add: loadRoom_def Let_def split: sum.splits option.splits)

lemma tied_state_eq:
  "tied_state = (lunch_state True None False)\<lparr>tiedOptionIds := [lit ''o1'', lit ''o2''],
     votingClosing := False\<rparr>"
  by (simp add: tied_state_def closeVoting_def tie_answer_def lunch_state_eq Let_def)

subsection \<open>The two outcomes of closing the voting\<close>

text \<open>
  C2, as the code has it. When the request of \<open>closeVoting\<close> succeeds there are two
  outcomes. With a tie, the only request is the close itself: no load is made, the
  tied option identifiers of the answer become the tie state, and every state the
  handler commits has the room and the final-decision text it started with. With no
  tie, the handler loads the room again and leaves the tie state as it was: nothing on
  this branch writes \<open>tiedOptionIds\<close>.
\<close>

theorem closeVoting_outcomes:
  assumes "room s = Some r" and "closeVoting p (Inr d) loaded s = (tr, s')"
  shows "if tie d
         then calls tr = [Post (room_path r ''/close-voting'') []]
              \<and> s' = s\<lparr>tiedOptionIds := tied d, votingClosing := False\<rparr>
              \<and> (\<forall>c \<in> set (commits tr). finalOptionText c = finalOptionText s \<and> room c = room s)
         else calls tr = [Post (room_path r ''/close-voting'') [], Get (room_url (roomCode p))]
              \<and> s' = (snd (loadRoom p loaded (s\<lparr>votingClosing := True\<rparr>)))\<lparr>votingClosing := False\<rparr>
              \<and> tiedOptionIds s' = tiedOptionIds s"
proof (cases "tie d")
  case True
  with assms show ?thesis
    by (auto simp: closeVoting_def Let_def)
next
  case False
  with assms show ?thesis
    by (auto simp: closeVoting_def Let_def case_prod_beta loadRoom_calls loadRoom_keeps)
qed

text \<open>
  The theorem at the open room: closed with a tie between both options, and closed
  with no tie.
\<close>

theorem closeVoting_outcomes_witness:
  "room (lunch_state True None False) = Some (lunch True None)
   \<and> calls (fst (closeVoting ann (Inr tie_answer) (Inl None) (lunch_state True None False)))
       = [Post (room_path (lunch True None) ''/close-voting'') []]
   \<and> tiedOptionIds (snd (closeVoting ann (Inr tie_answer) (Inl None) (lunch_state True None False)))
       = [lit ''o1'', lit ''o2'']
   \<and> calls (fst (closeVoting ann (Inr no_tie_answer) (Inr (lunch_data False for_pizza True))
         (lunch_state True None False)))
       = [Post (room_path (lunch True None) ''/close-voting'') [], Get (room_url (roomCode ann))]
   \<and> tiedOptionIds (snd (closeVoting ann (Inr no_tie_answer) (Inr (lunch_data False for_pizza True))
         (lunch_state True None False)))
       = []"
proof -
  have r: "room (lunch_state True None False) = Some (lunch True None)"
    by (simp add: lunch_state_eq)
  have t: "tiedOptionIds (lunch_state True None False) = []"
    by (simp add: lunch_state_eq init_state_def)
  have a: "closeVoting ann (Inr tie_answer) (Inl None) (lunch_state True None False)
           = (fst (closeVoting ann (Inr tie_answer) (Inl None) (lunch_state True None False)),
              snd (closeVoting ann (Inr tie_answer) (Inl None) (lunch_state True None False)))"
    by simp
  have b: "closeVoting ann (Inr no_tie_answer) (Inr (lunch_data False for_pizza True))
             (lunch_state True None False)
           = (fst (closeVoting ann (Inr no_tie_answer) (Inr (lunch_data False for_pizza True))
                 (lunch_state True None False)),
              snd (closeVoting ann (Inr no_tie_answer) (Inr (lunch_data False for_pizza True))
                 (lunch_state True None False)))"
    by simp
  show ?thesis
    using r t closeVoting_outcomes [OF r a] closeVoting_outcomes [OF r b]
    by (simp add: loadRoom_keeps tie_answer_def no_tie_answer_def)
qed

text \<open>
  C2 as it is written fails on the branch without a tie. After a close that was answered
  with a tie the view still holds the open room, so it still offers Close Voting; a
  second close answered without a tie loads the room and leaves both tied options in
  the tie state.
\<close>

theorem close_keeps_tie_counterexample:
  "offers_closeVoting ann tied_state
   \<and> calls (fst (closeVoting ann (Inr no_tie_answer) (Inr (lunch_data False for_pizza True)) tied_state))
       = [Post (room_path (lunch True None) ''/close-voting'') [], Get (room_url (roomCode ann))]
   \<and> tiedOptionIds (snd (closeVoting ann (Inr no_tie_answer) (Inr (lunch_data False for_pizza True)) tied_state))
       = [lit ''o1'', lit ''o2'']
   \<and> tiedOptionIds (snd (closeVoting ann (Inr no_tie_answer) (Inr (lunch_data False for_pizza True)) tied_state))
       \<noteq> []"
  by (simp add: tied_state_eq lunch_state_eq no_tie_answer_def closeVoting_def Let_def
      case_prod_beta loadRoom_calls loadRoom_keeps offers_closeVoting_def render_def
      init_state_def isCreator_def lunch_def ann_def)

subsection \<open>A successful load\<close>



subsection \<open>Submitting an option\<close>

lemma trim_blank:
  assumes "list_all is_ws t"
  shows "trim t = []"
  using assms by (auto simp: trim_def list_all_iff dest: set_dropWhileD)

lemma trim_samples:
  "trim (lit '''') = []"
  "trim (lit ''   '') = []"
  "trim (lit '' Tacos '') = lit ''Tacos''"
  "trim (lit '' lunch1 '') = lit ''lunch1''"
  by (simp_all add: trim_def lit_def is_ws_def)

text \<open>
  C9. When the text of the option form is empty after trimming, \<open>submitOption\<close> shows the
  error \<open>Enter option text\<close> and does nothing else: no request, no change of state.
  Otherwise, in a view that holds a room, it posts the trimmed text to the options of
  the room; when that request succeeds it clears the form and loads the room again,
  and when it fails it makes no further request.
\<close>

theorem submitOption_cases:
  "(trim (optionText s) = [] \<longrightarrow>
      submitOption p posted loaded s = ([Toast Error (lit ''Enter option text'')], s))
   \<and> (trim (optionText s) \<noteq> [] \<and> room s = Some r \<longrightarrow>
        fst (submitOption p (Inr ()) loaded s) =
          [Call (Post (room_path r ''/options'') [(''text'', JString (trim (optionText s)))]),
            Toast Success (lit ''Option added!''), Commit (s\<lparr>optionText := []\<rparr>)]
             @ fst (loadRoom p loaded (s\<lparr>optionText := []\<rparr>))
        \<and> snd (submitOption p (Inr ()) loaded s) = snd (loadRoom p loaded (s\<lparr>optionText := []\<rparr>))
        \<and> calls (fst (submitOption p (Inr ()) loaded s)) =
             [Post (room_path r ''/options'') [(''text'', JString (trim (optionText s)))],
              Get (room_url (roomCode p))]
        \<and> submitOption p (Inl e) loaded s =
             ([Call (Post (room_path r ''/options'') [(''text'', JString (trim (optionText s)))]),
               Toast Error (message_or e (lit ''Failed to add option''))], s))"
  by (simp add: submitOption_def truthy_def Let_def case_prod_beta loadRoom_calls)

text \<open>
  The theorem at a form that holds three spaces, and at one that holds \<open>Tacos\<close> between
  two spaces.
\<close>

theorem submitOption_cases_witness:
  "trim (optionText (typing ''   '')) = []
   \<and> calls (fst (submitOption ann (Inr ()) (Inr (lunch_data False None False)) (typing ''   ''))) = []
   \<and> toasts (fst (submitOption ann (Inr ()) (Inr (lunch_data False None False)) (typing ''   '')))
       = [(Error, lit ''Enter option text'')]
   \<and> trim (optionText (typing '' Tacos '')) \<noteq> []
   \<and> room (typing '' Tacos '') = Some (lunch False None)
   \<and> calls (fst (submitOption ann (Inr ()) (Inr (lunch_data False None False)) (typing '' Tacos '')))
       = [Post (room_path (lunch False None) ''/options'') [(''text'', JString (lit ''Tacos''))],
          Get (room_url (roomCode ann))]"
proof -
  have a: "trim (optionText (typing ''   '')) = []"
    by (simp add: typing_def trim_samples)
  have b: "trim (optionText (typing '' Tacos '')) = lit ''Tacos''"
    by (simp add: typing_def trim_samples)
  have c: "lit ''Tacos'' \<noteq> []" by (simp add: lit_def)
  have r: "room (typing '' Tacos '') = Some (lunch False None)"
    by (simp add: typing_def lunch_state_eq)
  show ?thesis
    using a b c r
      submitOption_cases [where s = "typing ''   ''" and p = ann and posted = "Inr ()"
        and loaded = "Inr (lunch_data False None False)"]
      submitOption_cases [where s = "typing '' Tacos ''" and r = "lunch False None" and p = ann
        and loaded = "Inr (lunch_data False None False)"]
    by (simp add: loadRoom_calls)
qed

subsection \<open>Casting a vote\<close>

lemma vote_rejected:
  "\<not> selected s \<Longrightarrow>
     vote p posted loaded s = ([Toast Error (lit ''Select an option to vote'')], s)"
  by (cases "selectedOptionId s") (simp_all add: vote_def selected_def)

lemma vote_failed:
  assumes "selectedOptionId s = Some i" "i \<noteq> []" "room s = Some r"
  shows "vote p (Inl e) loaded s =
          ([Commit (s\<lparr>voteCasting := True\<rparr>),
            Call (Post (room_path r ''/vote'') [(''optionId'', JString i)]),
            Toast Error (message_or e (lit ''Failed to vote'')),
            Commit (s\<lparr>voteCasting := False\<rparr>)], s\<lparr>voteCasting := False\<rparr>)"
  using assms by (simp add: vote_def truthy_def Let_def)

lemma vote_acked:
  assumes "selectedOptionId s = Some i" "i \<noteq> []" "room s = Some r"
  shows "vote p (Inr ()) loaded s =
          ([Commit (s\<lparr>voteCasting := True\<rparr>),
            Call (Post (room_path r ''/vote'') [(''optionId'', JString i)]),
            Toast Success (lit ''Vote cast!''),
            Commit (s\<lparr>voteCasting := True, hasVoted := True\<rparr>)]
           @ fst (loadRoom p loaded (s\<lparr>voteCasting := True, hasVoted := True\<rparr>))
           @ [Commit ((snd (loadRoom p loaded (s\<lparr>voteCasting := True, hasVoted := True\<rparr>)))
                \<lparr>voteCasting := False\<rparr>)],
           (snd (loadRoom p loaded (s\<lparr>voteCasting := True, hasVoted := True\<rparr>)))
             \<lparr>voteCasting := False\<rparr>)"
  using assms by (simp add: vote_def truthy_def Let_def case_prod_beta)

text \<open>
  C8. With no option selected, \<open>vote\<close> shows the error \<open>Select an option to vote\<close> and does
  nothing else: no request, no change of state. With an option selected, in a view that
  holds a room, the state committed before the request has the has-voted flag it had;
  when the request fails no committed state changes the flag; when the service
  acknowledges the vote, the flag is set in the commit that follows the
  acknowledgement, and then the room is loaded again.
\<close>

theorem vote_cases:
  "(selectedOptionId s = None \<longrightarrow>
      vote p posted loaded s = ([Toast Error (lit ''Select an option to vote'')], s))
   \<and> (selectedOptionId s = Some i \<and> i \<noteq> [] \<and> room s = Some r \<longrightarrow>
        (\<forall>c \<in> set (commits (fst (vote p (Inl e) loaded s))). hasVoted c = hasVoted s)
        \<and> calls (fst (vote p (Inl e) loaded s)) =
            [Post (room_path r ''/vote'') [(''optionId'', JString i)]]
        \<and> fst (vote p (Inr ()) loaded s) =
            [Commit (s\<lparr>voteCasting := True\<rparr>),
             Call (Post (room_path r ''/vote'') [(''optionId'', JString i)]),
             Toast Success (lit ''Vote cast!''),
             Commit (s\<lparr>voteCasting := True, hasVoted := True\<rparr>)]
            @ fst (loadRoom p loaded (s\<lparr>voteCasting := True, hasVoted := True\<rparr>))
            @ [Commit (snd (vote p (Inr ()) loaded s))]
        \<and> calls (fst (vote p (Inr ()) loaded s)) =
            [Post (room_path r ''/vote'') [(''optionId'', JString i)], Get (room_url (roomCode p))]
        \<and> hasVoted (s\<lparr>voteCasting := True\<rparr>) = hasVoted s
        \<and> hasVoted (s\<lparr>voteCasting := True, hasVoted := True\<rparr>))"
proof (intro conjI impI)
  assume "selectedOptionId s = None"
  then have "\<not> selected s" by (simp add: selected_def)
  then show "vote p posted loaded s = ([Toast Error (lit ''Select an option to vote'')], s)"
    by (rule vote_rejected)
next
  assume a: "selectedOptionId s = Some i \<and> i \<noteq> [] \<and> room s = Some r"
  then show "\<forall>c \<in> set (commits (fst (vote p (Inl e) loaded s))). hasVoted c = hasVoted s"
    by (simp add: vote_failed)
next
  assume a: "selectedOptionId s = Some i \<and> i \<noteq> [] \<and> room s = Some r"
  then show "calls (fst (vote p (Inl e) loaded s)) =
      [Post (room_path r ''/vote'') [(''optionId'', JString i)]]"
    by (simp add: vote_failed)
next
  assume a: "selectedOptionId s = Some i \<and> i \<noteq> [] \<and> room s = Some r"
  then show "fst (vote p (Inr ()) loaded s) =
            [Commit (s\<lparr>voteCasting := True\<rparr>),
             Call (Post (room_path r ''/vote'') [(''optionId'', JString i)]),
             Toast Success (lit ''Vote cast!''),
             Commit (s\<lparr>voteCasting := True, hasVoted := True\<rparr>)]
            @ fst (loadRoom p loaded (s\<lparr>voteCasting := True, hasVoted := True\<rparr>))
            @ [Commit (snd (vote p (Inr ()) loaded s))]"
    by (simp add: vote_acked)
next
  assume a: "selectedOptionId s = Some i \<and> i \<noteq> [] \<and> room s = Some r"
  then show "calls (fst (vote p (Inr ()) loaded s)) =
      [Post (room_path r ''/vote'') [(''optionId'', JString i)], Get (room_url (roomCode p))]"
    by (simp add: vote_acked loadRoom_calls)
qed simp_all

text \<open>
  The theorem at the open room with no option selected, and with the first option
  selected: the vote refused by the service, and the vote acknowledged.
\<close>

theorem vote_cases_witness:
  "selectedOptionId (choosing None) = None
   \<and> calls (fst (vote ann (Inr ()) (Inr (lunch_data True None True)) (choosing None))) = []
   \<and> selectedOptionId (choosing (Some (lit ''o1''))) = Some (lit ''o1'') \<and> lit ''o1'' \<noteq> []
   \<and> room (choosing (Some (lit ''o1''))) = Some (lunch True None)
   \<and> \<not> hasVoted (choosing (Some (lit ''o1'')))
   \<and> calls (fst (vote ann (Inl None) (Inr (lunch_data True None True))
         (choosing (Some (lit ''o1'')))))
       = [Post (room_path (lunch True None) ''/vote'') [(''optionId'', JString (lit ''o1''))]]
   \<and> calls (fst (vote ann (Inr ()) (Inr (lunch_data True None True)) (choosing (Some (lit ''o1'')))))
       = [Post (room_path (lunch True None) ''/vote'') [(''optionId'', JString (lit ''o1''))],
          Get (room_url (roomCode ann))]"
proof -
  have a: "selectedOptionId (choosing None) = None"
    by (simp add: choosing_def)
  have b: "selectedOptionId (choosing (Some (lit ''o1''))) = Some (lit ''o1'') \<and> lit ''o1'' \<noteq> []
           \<and> room (choosing (Some (lit ''o1''))) = Some (lunch True None)"
    by (simp add: choosing_def lunch_state_eq lit_def)
  have c: "\<not> hasVoted (choosing (Some (lit ''o1'')))"
    by (simp add: choosing_def lunch_state_eq init_state_def)
  note n = vote_cases [where s = "choosing None" and p = ann and posted = "Inr ()"
        and loaded = "Inr (lunch_data True None True)", THEN conjunct1, rule_format, OF a]
  note v = vote_cases [where s = "choosing (Some (lit ''o1''))" and i = "lit ''o1''"
        and r = "lunch True None" and p = ann and e = None
        and loaded = "Inr (lunch_data True None True)", THEN conjunct2, rule_format, OF b]
  have n': "calls (fst (vote ann (Inr ()) (Inr (lunch_data True None True)) (choosing None))) = []"
    by (simp add: n)
  show ?thesis
    using a b c n' v [THEN conjunct2, THEN conjunct1]
      v [THEN conjunct2, THEN conjunct2, THEN conjunct2, THEN conjunct1]
    by simp
qed

subsection \<open>Joining a room\<close>

lemma upper_sample: "ascii_upper (lit ''lunch1'') = lit ''LUNCH1''"
  by (simp add: ascii_upper_def lit_def)

text \<open>
  C10. \<open>joinRoom\<close> trims the text of the room code field. When nothing is left it shows the
  error \<open>Enter room code\<close> and does nothing else: no request, no navigation. Otherwise it
  posts the trimmed code in upper case to the join endpoint; when that succeeds it
  navigates to the room of the trimmed code in upper case, and when it fails it shows
  the error and does not navigate.
\<close>

theorem joinRoom_cases:
  "(trim (roomCodeInput h) = [] \<longrightarrow>
      joinRoom upper posted h = ([Toast Error (lit ''Enter room code'')], h))
   \<and> (trim (roomCodeInput h) \<noteq> [] \<longrightarrow>
        joinRoom upper (Inr ()) h =
          ([Call (Post (lit ''/rooms/join'')
                   [(''roomCode'', JString (upper (trim (roomCodeInput h))))]),
            Toast Success (lit ''Joined room! Redirecting...''),
            Navigate (lit ''/room/'' @ upper (trim (roomCodeInput h)))], h)
        \<and> joinRoom upper (Inl e) h =
          ([Call (Post (lit ''/rooms/join'')
                   [(''roomCode'', JString (upper (trim (roomCodeInput h))))]),
            Toast Error (message_or e (lit ''Failed to join room''))], h))"
  by (simp add: joinRoom_def truthy_def Let_def)

text \<open>
  The theorem at a field that holds three spaces, and at one that holds \<open>lunch1\<close> between
  two spaces.
\<close>

theorem joinRoom_cases_witness:
  "trim (roomCodeInput (home_with ''   '')) = []
   \<and> calls (fst (joinRoom ascii_upper (Inr ()) (home_with ''   ''))) = []
   \<and> trim (roomCodeInput (home_with '' lunch1 '')) \<noteq> []
   \<and> fst (joinRoom ascii_upper (Inr ()) (home_with '' lunch1 '')) =
       [Call (Post (lit ''/rooms/join'') [(''roomCode'', JString (lit ''LUNCH1''))]),
        Toast Success (lit ''Joined room! Redirecting...''),
        Navigate (lit ''/room/'' @ lit ''LUNCH1'')]"
proof -
  have a: "trim (roomCodeInput (home_with ''   '')) = []"
    by (simp add: home_with_def trim_samples)
  have b: "trim (roomCodeInput (home_with '' lunch1 '')) = lit ''lunch1''"
    by (simp add: home_with_def trim_samples)
  have c: "lit ''lunch1'' \<noteq> []" by (simp add: lit_def)
  show ?thesis
    using a b c upper_sample
      joinRoom_cases [where h = "home_with ''   ''" and upper = ascii_upper and posted = "Inr ()"]
      joinRoom_cases [where h = "home_with '' lunch1 ''" and upper = ascii_upper]
    by simp
qed

subsection \<open>The controls of the creator\<close>

lemma tied_state_reachable: "reachable tied_state"
  unfolding tied_state_def
  by (rule r_close [OF lunch_state_reachable [of True None False], of _ ann "Inr tie_answer" "Inl None"])
     (simp add: closeVoting_def lunch_state_eq tie_answer_def Let_def)

lemma unresolved_state_reachable: "reachable unresolved_state"
  unfolding unresolved_state_def
  by (rule r_load [OF tied_state_reachable, of _ ann "Inr (lunch_data False for_unknown True)"])
     (simp add: loadRoom_def lunch_data_def Let_def)

lemma unresolved_state_eq:
  "unresolved_state = tied_state\<lparr>room := Some (lunch False for_unknown),
     options := [pizza, sushi], hasVoted := True, finalOptionText := Some [],
     shareLink := origin ann @ lit ''/room/'' @ roomCode ann, loading := False\<rparr>"
  by (simp add: unresolved_state_def loadRoom_def lunch_data_def Let_def resolve_final_def
      final_ref_def lunch_def for_unknown_def truthy_def pizza_def sushi_def lit_def)

text \<open>
  C4, as the code has it. \<open>isCreator\<close> holds exactly when the view holds a room whose
  creator is the e-mail of the authenticated user. Open Voting and Close Voting are
  offered only when it holds, so a participant who is not the creator is offered
  neither; the tiebreaker prompt is offered exactly when it holds, the tie state is not
  empty and the final-decision text is falsy: null or the empty string.
\<close>

theorem creator_controls:
  assumes "reachable s"
  shows "(isCreator p s \<longleftrightarrow> (\<exists>r. room s = Some r \<and> Some (creatorId r) = authEmail p))
         \<and> (offers_openVoting p s \<longrightarrow> isCreator p s)
         \<and> (offers_closeVoting p s \<longrightarrow> isCreator p s)
         \<and> (offers_tiebreaker p s \<longleftrightarrow>
               isCreator p s \<and> tiedOptionIds s \<noteq> []
               \<and> (finalOptionText s = None \<or> finalOptionText s = Some []))"
proof (cases "room s")
  case None
  then show ?thesis
    by (simp add: isCreator_def offers_openVoting_def offers_closeVoting_def
        offers_tiebreaker_def render_def)
next
  case (Some r)
  with assms have "\<not> loading s" by (rule reachable_loaded)
  with Some show ?thesis
    by (cases "finalOptionText s")
       (simp_all add: isCreator_def offers_openVoting_def offers_closeVoting_def
          offers_tiebreaker_def render_def final_shown_def truthy_def)
qed

text \<open>
  The theorem at the tied room: its creator is offered the prompt and Close Voting,
  another participant is offered neither.
\<close>

theorem creator_controls_witness:
  "reachable tied_state
   \<and> isCreator ann tied_state \<and> offers_tiebreaker ann tied_state
   \<and> offers_closeVoting ann tied_state
   \<and> \<not> isCreator bob tied_state \<and> \<not> offers_tiebreaker bob tied_state
   \<and> \<not> offers_closeVoting bob tied_state \<and> \<not> offers_openVoting bob tied_state"
proof -
  have a: "isCreator ann tied_state"
    by (simp add: isCreator_def tied_state_eq lunch_state_eq lunch_def ann_def)
  have b: "\<not> isCreator bob tied_state"
    by (simp add: isCreator_def tied_state_eq lunch_state_eq lunch_def bob_def ann_def lit_def)
  have c: "tiedOptionIds tied_state \<noteq> [] \<and> finalOptionText tied_state = None"
    by (simp add: tied_state_eq lunch_state_eq resolve_final_def final_ref_def lunch_def)
  have d: "offers_closeVoting ann tied_state"
    by (simp add: offers_closeVoting_def render_def isCreator_def tied_state_eq lunch_state_eq
        lunch_def ann_def)
  show ?thesis
    using a b c d tied_state_reachable
      creator_controls [OF tied_state_reachable, of ann]
      creator_controls [OF tied_state_reachable, of bob]
    by blast
qed

text \<open>
  C4 as it is written fails where the final-decision text is the empty string. The
  creator closes the voting and is answered with a tie; the next load reports a final
  decision for an option that is not in the response, and \<open>loadRoom\<close> stores the empty
  string. The text is not null, and the prompt is offered.
\<close>

theorem empty_text_prompt_counterexample:
  "reachable unresolved_state
   \<and> isCreator ann unresolved_state \<and> tiedOptionIds unresolved_state \<noteq> []
   \<and> finalOptionText unresolved_state = Some [] \<and> finalOptionText unresolved_state \<noteq> None
   \<and> offers_tiebreaker ann unresolved_state"
  using unresolved_state_reachable
  by (simp add: unresolved_state_eq tied_state_eq lunch_state_eq offers_tiebreaker_def render_def
      isCreator_def final_shown_def truthy_def lunch_def ann_def)

subsection \<open>Failed requests\<close>

lemma submitOption_failure:
  "calls (fst (submitOption p (Inl e) loaded s)) \<noteq> [] \<Longrightarrow>
     toasts (fst (submitOption p (Inl e) loaded s))
       = [(Error, message_or e (lit ''Failed to add option''))]"
  by (cases "room s") (simp_all add: submitOption_def split: if_splits)

lemma openVoting_failure:
  "calls (fst (openVoting p (Inl e) loaded s)) \<noteq> [] \<Longrightarrow>
     toasts (fst (openVoting p (Inl e) loaded s))
       = [(Error, message_or e (lit ''Failed to open voting''))]"
  by (cases "room s") (simp_all add: openVoting_def)

lemma vote_failure:
  "calls (fst (vote p (Inl e) loaded s)) \<noteq> [] \<Longrightarrow>
     toasts (fst (vote p (Inl e) loaded s)) = [(Error, message_or e (lit ''Failed to vote''))]"
  by (cases "selectedOptionId s"; cases "room s")
     (simp_all add: vote_def Let_def split: if_splits)

lemma closeVoting_failure:
  "calls (fst (closeVoting p (Inl e) loaded s)) \<noteq> [] \<Longrightarrow>
     toasts (fst (closeVoting p (Inl e) loaded s))
       = [(Error, message_or e (lit ''Failed to close voting''))]"
  by (cases "room s") (simp_all add: closeVoting_def Let_def)

lemma triggerTiebreaker_failure:
  "calls (fst (triggerTiebreaker p m (Inl e) loaded s)) \<noteq> [] \<Longrightarrow>
     toasts (fst (triggerTiebreaker p m (Inl e) loaded s))
       = [(Error, message_or e (lit ''Failed to trigger tiebreaker''))]"
  by (cases "room s") (simp_all add: triggerTiebreaker_def Let_def)

lemma createRoom_failure:
  "calls (fst (createRoom (Inl e) h)) \<noteq> [] \<Longrightarrow>
     toasts (fst (createRoom (Inl e) h)) = [(Error, message_or e (lit ''Failed to create room''))]"
  by (simp add: createRoom_def Let_def split: if_splits)

lemma joinRoom_failure:
  "calls (fst (joinRoom upper (Inl e) h)) \<noteq> [] \<Longrightarrow>
     toasts (fst (joinRoom upper (Inl e) h)) = [(Error, message_or e (lit ''Failed to join room''))]"
  by (simp add: joinRoom_def Let_def split: if_splits)

lemma auth_failure:
  "toasts (fst (login_submit (Inl e) f)) = [(Error, message_or e (lit ''Login failed''))]"
  "toasts (fst (signup_submit (Inl e) f)) = [(Error, message_or e (lit ''Signup failed''))]"
  by (simp_all add: login_submit_def signup_submit_def auth_submit_def Let_def)

lemma load_failure:
  "toasts (fst (loadRoom p (Inl e) s)) = [(Error, lit ''Failed to load room data'')]"
  "toasts (fst (fetchPast (Inl e) ps)) = [(Error, lit ''Failed to load past decisions'')]"
  by (simp_all add: loadRoom_def fetchPast_def Let_def)

text \<open>
  C7, as the code has it. A handler that posts a request which fails shows one error:
  the message of the response when it has one that is not empty, and the fallback of
  the action otherwise. The two loads, of the room and of the past decisions, show
  their own fixed message whatever the response says.
\<close>

theorem failures_surfaced:
  "(calls (fst (submitOption p (Inl e) loaded s)) \<noteq> [] \<longrightarrow>
      toasts (fst (submitOption p (Inl e) loaded s))
        = [(Error, message_or e (lit ''Failed to add option''))])
   \<and> (calls (fst (openVoting p (Inl e) loaded s)) \<noteq> [] \<longrightarrow>
        toasts (fst (openVoting p (Inl e) loaded s))
          = [(Error, message_or e (lit ''Failed to open voting''))])
   \<and> (calls (fst (vote p (Inl e) loaded s)) \<noteq> [] \<longrightarrow>
        toasts (fst (vote p (Inl e) loaded s)) = [(Error, message_or e (lit ''Failed to vote''))])
   \<and> (calls (fst (closeVoting p (Inl e) loaded s)) \<noteq> [] \<longrightarrow>
        toasts (fst (closeVoting p (Inl e) loaded s))
          = [(Error, message_or e (lit ''Failed to close voting''))])
   \<and> (calls (fst (triggerTiebreaker p m (Inl e) loaded s)) \<noteq> [] \<longrightarrow>
        toasts (fst (triggerTiebreaker p m (Inl e) loaded s))
          = [(Error, message_or e (lit ''Failed to trigger tiebreaker''))])
   \<and> (calls (fst (createRoom (Inl e) h)) \<noteq> [] \<longrightarrow>
        toasts (fst (createRoom (Inl e) h)) = [(Error, message_or e (lit ''Failed to create room''))])
   \<and> (calls (fst (joinRoom upper (Inl e) h)) \<noteq> [] \<longrightarrow>
        toasts (fst (joinRoom upper (Inl e) h)) = [(Error, message_or e (lit ''Failed to join room''))])
   \<and> toasts (fst (login_submit (Inl e) f)) = [(Error, message_or e (lit ''Login failed''))]
   \<and> toasts (fst (signup_submit (Inl e) f)) = [(Error, message_or e (lit ''Signup failed''))]
   \<and> toasts (fst (loadRoom p (Inl e) s)) = [(Error, lit ''Failed to load room data'')]
   \<and> toasts (fst (fetchPast (Inl e) ps)) = [(Error, lit ''Failed to load past decisions'')]
   \<and> (x \<noteq> [] \<longrightarrow> message_or (Some x) fallback = x)
   \<and> message_or (Some []) fallback = fallback
   \<and> message_or None fallback = fallback"
  using submitOption_failure openVoting_failure vote_failure closeVoting_failure
    triggerTiebreaker_failure createRoom_failure joinRoom_failure
  by (simp add: auth_failure load_failure truthy_def)

text \<open>
  The theorem at an option posted from the loaded room and refused with the message
  \<open>Voting is open\<close>, and refused with no message.
\<close>

theorem failures_surfaced_witness:
  "calls (fst (submitOption ann (Inl (Some (lit ''Voting is open''))) (Inl None) (typing '' Tacos '')))
     \<noteq> []
   \<and> toasts (fst (submitOption ann (Inl (Some (lit ''Voting is open''))) (Inl None)
        (typing '' Tacos ''))) = [(Error, lit ''Voting is open'')]
   \<and> calls (fst (submitOption ann (Inl None) (Inl None) (typing '' Tacos ''))) \<noteq> []
   \<and> toasts (fst (submitOption ann (Inl None) (Inl None) (typing '' Tacos '')))
       = [(Error, lit ''Failed to add option'')]"
proof -
  have t: "trim (optionText (typing '' Tacos '')) = lit ''Tacos''"
    by (simp add: typing_def trim_samples)
  have r: "room (typing '' Tacos '') = Some (lunch False None)"
    by (simp add: typing_def lunch_state_eq)
  have n: "lit ''Tacos'' \<noteq> []" by (simp add: lit_def)
  have a: "calls (fst (submitOption ann (Inl e) (Inl None) (typing '' Tacos ''))) \<noteq> []" for e
    by (simp add: submitOption_def t r n truthy_def)
  have b: "lit ''Voting is open'' \<noteq> []" by (simp add: lit_def)
  note x = failures_surfaced [where p = ann and e = "Some (lit ''Voting is open'')"
      and loaded = "Inl None" and s = "typing '' Tacos ''", THEN conjunct1, rule_format, OF a]
  note y = failures_surfaced [where p = ann and e = None
      and loaded = "Inl None" and s = "typing '' Tacos ''", THEN conjunct1, rule_format, OF a]
  show ?thesis
    using a b x y by (simp add: truthy_def)
qed

text \<open>
  C7 as it is written fails for the load of the room: the response carries the message
  \<open>Room not found\<close>, and the error shown is the fixed one.
\<close>

theorem load_failure_counterexample:
  "toasts (fst (loadRoom ann (Inl (Some (lit ''Room not found''))) init_state))
     = [(Error, lit ''Failed to load room data'')]
   \<and> lit ''Room not found'' \<noteq> []
   \<and> lit ''Failed to load room data'' \<noteq> lit ''Room not found''"
  by (simp add: loadRoom_def Let_def lit_def)

subsection \<open>The state of a mounted view after a handler\<close>

lemma effect_keeps [simp]:
  "st (poll_effect v) = st v" "pr (poll_effect v) = pr v" "alive (poll_effect v) = alive v"
  "st (run_cleanup v) = st v" "pr (run_cleanup v) = pr v" "alive (run_cleanup v) = alive v"
  by (simp_all add: poll_effect_def run_cleanup_def split: option.splits)

lemma apply_event_keeps [simp]:
  "pr (apply_event e v) = pr v" "alive (apply_event e v) = alive v"
  by (cases e; simp)+

lemma apply_event_st:
  "st (apply_event e v) = (case e of Commit s \<Rightarrow> s | Loaded s \<Rightarrow> s | _ \<Rightarrow> st v)"
  by (cases e) simp_all

lemma apply_trace_keeps [simp]:
  "pr (apply_trace tr v) = pr v" "alive (apply_trace tr v) = alive v"
  unfolding apply_trace_def by (induction tr arbitrary: v) simp_all

lemma apply_trace_st:
  "st (apply_trace tr v) = (if commits tr = [] then st v else last (commits tr))"
  unfolding apply_trace_def
proof (induction tr arbitrary: v)
  case Nil
  then show ?case by simp
next
  case (Cons e tr)
  then show ?case by (cases e) (simp_all add: apply_event_st)
qed

lemma handle_st: "ends_in (st v) res \<Longrightarrow> st (snd (handle res v)) = snd res"
  by (simp add: handle_def ends_in_def apply_trace_st)

lemma loadRoom_commits: "commits (fst (loadRoom p loaded s)) = [snd (loadRoom p loaded s)]"
  by (simp add: loadRoom_def Let_def split: sum.splits option.splits)

lemma loadRoom_ends: "ends_in s (loadRoom p loaded s)"
  by (simp add: ends_in_def loadRoom_commits)

lemma submitOption_ends: "ends_in s (submitOption p posted loaded s)"
  by (simp add: ends_in_def submitOption_def Let_def case_prod_beta loadRoom_commits
      split: option.splits sum.splits)

lemma openVoting_ends: "ends_in s (openVoting p posted loaded s)"
  by (simp add: ends_in_def openVoting_def Let_def case_prod_beta loadRoom_commits
      split: option.splits sum.splits)

lemma vote_ends: "ends_in s (vote p posted loaded s)"
  by (simp add: ends_in_def vote_def Let_def case_prod_beta loadRoom_commits
      split: option.splits sum.splits)

lemma closeVoting_ends: "ends_in s (closeVoting p posted loaded s)"
  by (simp add: ends_in_def closeVoting_def Let_def case_prod_beta loadRoom_commits
      split: option.splits sum.splits)

lemma triggerTiebreaker_ends: "ends_in s (triggerTiebreaker p m posted loaded s)"
  by (simp add: ends_in_def triggerTiebreaker_def Let_def case_prod_beta loadRoom_commits
      split: option.splits sum.splits)

subsection \<open>The polling effect keeps one interval while voting is open\<close>

lemma rerun_poll_ok: "alive v \<Longrightarrow> poll_ok v \<Longrightarrow> poll_ok (poll_effect (run_cleanup (v\<lparr>st := s\<rparr>)))"
  by (auto simp: poll_ok_def poll_effect_def run_cleanup_def poll_pending_def
      split: option.splits)

lemma same_room_poll_ok: "room s = room (st v) \<Longrightarrow> poll_ok v \<Longrightarrow> poll_ok (v\<lparr>st := s\<rparr>)"
  by (simp add: poll_ok_def poll_pending_def split: option.splits)

lemma apply_event_poll_ok: "alive v \<Longrightarrow> poll_ok v \<Longrightarrow> poll_ok (apply_event e v)"
  by (cases e) (simp_all add: rerun_poll_ok same_room_poll_ok)

lemma apply_trace_poll_ok: "alive v \<Longrightarrow> poll_ok v \<Longrightarrow> poll_ok (apply_trace tr v)"
  unfolding apply_trace_def
  by (induction tr arbitrary: v) (simp_all add: apply_event_poll_ok)

lemma handle_poll_ok: "alive v \<Longrightarrow> poll_ok v \<Longrightarrow> poll_ok (snd (handle res v))"
  by (simp add: handle_def apply_trace_poll_ok)

lemma handle_keeps [simp]:
  "pr (snd (handle res v)) = pr v" "alive (snd (handle res v)) = alive v"
  by (simp_all add: handle_def)

lemma changed_code_poll_ok:
  "alive v \<Longrightarrow> poll_ok v \<Longrightarrow> poll_ok (poll_effect (run_cleanup (v\<lparr>pr := q\<rparr>)))"
  by (auto simp: poll_ok_def poll_effect_def run_cleanup_def poll_pending_def
      split: option.splits)

lemma step_poll_ok: "alive v \<Longrightarrow> poll_ok v \<Longrightarrow> poll_ok (snd (step a v))"
proof (cases a)
  case (Tick i loaded)
  assume "alive v" "poll_ok v"
  then show ?thesis using Tick by (simp add: handle_poll_ok split: option.splits)
next
  case (ChangeCode c loaded)
  assume "alive v" "poll_ok v"
  then show ?thesis using ChangeCode
    by (simp add: Let_def handle_poll_ok changed_code_poll_ok)
next
  case Unmount
  assume "alive v" "poll_ok v"
  then show ?thesis using Unmount
    by (auto simp: poll_ok_def run_cleanup_def poll_pending_def split: option.splits)
qed (simp_all add: handle_poll_ok)

lemma mount_poll_ok: "poll_ok (snd (mount p loaded))" and mount_alive: "alive (snd (mount p loaded))"
proof -
  let ?v = "\<lparr>st = init_state, pr = p, alive = True, timers = [], poll_cleanup = None, next_timer = 0\<rparr>"
  have "poll_ok (poll_effect ?v)"
    by (simp add: poll_ok_def poll_effect_def poll_pending_def init_state_def)
  then show "poll_ok (snd (mount p loaded))"
    by (simp add: mount_def Let_def apply_trace_poll_ok)
  show "alive (snd (mount p loaded))"
    by (simp add: mount_def Let_def)
qed

lemma run_poll_ok: "poll_ok v \<Longrightarrow> poll_ok (run acts v)"
  by (induction acts arbitrary: v) (simp_all add: step_poll_ok)

lemma dead_poll_ok: "poll_ok v \<Longrightarrow> \<not> alive v \<Longrightarrow> timers v = []"
  by (simp add: poll_ok_def poll_pending_def split: option.splits)

lemma poll_ok_timers:
  assumes "poll_ok v"
  shows "length (timers v) \<le> 1" and "timers v \<noteq> [] \<longleftrightarrow> poll_pending v"
    and "\<forall>t \<in> set (timers v). iv_period t = 5000 \<and> iv_code t = roomCode (pr v)"
  using assms by (auto simp: poll_ok_def split: option.splits)

lemma tick_loads:
  assumes "poll_ok v" and "t \<in> set (timers v)"
  shows "calls (fst (step (Tick (iv_id t) polled) v)) = [Get (room_url (roomCode (pr v)))]"
proof -
  from assms have "timers v = [t]" and "iv_code t = roomCode (pr v)"
    by (auto simp: poll_ok_def split: option.splits)
  then show ?thesis
    by (simp add: handle_def loadRoom_calls)
qed

lemma mounted_open_eq:
  "mounted_open = \<lparr>st = lunch_state True None False, pr = ann, alive = True,
     timers = [\<lparr>iv_id = 0, iv_period = 5000, iv_code = roomCode ann\<rparr>],
     poll_cleanup = Some 0, next_timer = 1\<rparr>"
  by (simp add: mounted_open_def mount_def Let_def apply_trace_def poll_effect_def
      run_cleanup_def init_state_def loadRoom_def lunch_data_def lunch_state_def lunch_def)

subsection \<open>The poll timer\<close>

text \<open>
  C3, as the code has it. In every state a mounted view reaches, it holds at most one
  poll timer, and it holds one exactly while it is mounted and the room it holds has
  voting open; the timer has a period of 5000 milliseconds and, when it fires, loads
  the room of the route. So the timer goes when a load stores a room with voting
  closed, and no other handler ends it. Unmounting leaves no timer, and after a change
  of the room code every timer loads the new code.
\<close>

theorem poll_timer:
  assumes "v = run acts (snd (mount p loaded))"
  shows "length (timers v) \<le> 1
         \<and> (timers v \<noteq> [] \<longleftrightarrow> poll_pending v)
         \<and> (\<forall>t \<in> set (timers v). iv_period t = 5000 \<and> iv_code t = roomCode (pr v)
               \<and> calls (fst (step (Tick (iv_id t) polled) v)) = [Get (room_url (roomCode (pr v)))])
         \<and> timers (snd (step Unmount v)) = []
         \<and> (alive v \<longrightarrow>
              length (timers (snd (step (ChangeCode c polled) v))) \<le> 1
              \<and> (\<forall>t \<in> set (timers (snd (step (ChangeCode c polled) v))). iv_code t = c))"
proof -
  have ok: "poll_ok v"
    unfolding assms by (rule run_poll_ok [OF mount_poll_ok])
  have u: "timers (snd (step Unmount v)) = []"
    using ok by (auto simp: poll_ok_def run_cleanup_def split: option.splits)
  have c: "length (timers (snd (step (ChangeCode c polled) v))) \<le> 1
           \<and> (\<forall>t \<in> set (timers (snd (step (ChangeCode c polled) v))). iv_code t = c)"
    if "alive v"
  proof -
    have "poll_ok (snd (step (ChangeCode c polled) v))"
      using that ok by (rule step_poll_ok)
    moreover have "roomCode (pr (snd (step (ChangeCode c polled) v))) = c"
      by (simp add: Let_def)
    ultimately show ?thesis
      using poll_ok_timers(1,3) by metis
  qed
  show ?thesis
    using poll_ok_timers [OF ok] tick_loads [OF ok] u c by blast
qed

text \<open>
  The theorem at the view mounted on the open room: one timer is pending; it is gone
  after a close without a tie, whose load stores the closed room, and after an unmount.
\<close>

theorem poll_timer_witness:
  "mounted_open = run [] (snd (mount ann (Inr (lunch_data True None False))))
   \<and> poll_pending mounted_open
   \<and> timers mounted_open = [\<lparr>iv_id = 0, iv_period = 5000, iv_code = roomCode ann\<rparr>]
   \<and> calls (fst (step (Tick 0 (Inl None)) mounted_open)) = [Get (room_url (roomCode ann))]
   \<and> timers (snd (step Unmount mounted_open)) = []
   \<and> \<not> poll_pending (run [CloseVoting (Inr no_tie_answer) (Inr (lunch_data False for_pizza True))]
        (snd (mount ann (Inr (lunch_data True None False)))))
   \<and> timers (run [CloseVoting (Inr no_tie_answer) (Inr (lunch_data False for_pizza True))]
        (snd (mount ann (Inr (lunch_data True None False))))) = []"
proof -
  have a: "mounted_open = run [] (snd (mount ann (Inr (lunch_data True None False))))"
    by (simp add: mounted_open_def)
  have b: "poll_pending mounted_open"
    by (simp add: mounted_open_eq poll_pending_def lunch_state_eq lunch_def)
  have t: "timers mounted_open = [\<lparr>iv_id = 0, iv_period = 5000, iv_code = roomCode ann\<rparr>]"
    by (simp add: mounted_open_eq)
  have d: "\<not> poll_pending (run [CloseVoting (Inr no_tie_answer) (Inr (lunch_data False for_pizza True))]
        (snd (mount ann (Inr (lunch_data True None False)))))"
    by (simp add: mounted_open_def [symmetric] mount_alive poll_pending_def handle_st
        closeVoting_ends)
       (simp add: mounted_open_eq lunch_state_eq closeVoting_def no_tie_answer_def Let_def
        loadRoom_def lunch_data_def lunch_def)
  note w = poll_timer [OF a, where polled = "Inl None"]
  note w' = poll_timer [OF refl, where acts = "[CloseVoting (Inr no_tie_answer)
      (Inr (lunch_data False for_pizza True))]" and p = ann
      and loaded = "Inr (lunch_data True None False)"]
  have e: "calls (fst (step (Tick 0 (Inl None)) mounted_open)) = [Get (room_url (roomCode ann))]"
    using w t by (simp add: mounted_open_eq)
  show ?thesis
    using a b t d e w [THEN conjunct2, THEN conjunct2, THEN conjunct2, THEN conjunct1]
      w' [THEN conjunct2, THEN conjunct1]
    by blast
qed

text \<open>
  C3 as it is written fails for a close that is answered with a tie. The creator closes
  the voting of the mounted room; the request succeeds and the view says that voting
  is closed, but no load is made, the view still holds the open room, and the timer
  stays pending: its next tick loads the room again.
\<close>

theorem tie_keeps_polling_counterexample:
  "toasts (fst (step (CloseVoting (Inr tie_answer) (Inl None)) mounted_open))
     = [(Success, lit ''Voting closed!''), (Info, lit ''It's a tie! Please choose a tiebreaker.'')]
   \<and> calls (fst (step (CloseVoting (Inr tie_answer) (Inl None)) mounted_open))
       = [Post (room_path (lunch True None) ''/close-voting'') []]
   \<and> timers (snd (step (CloseVoting (Inr tie_answer) (Inl None)) mounted_open))
       = [\<lparr>iv_id = 0, iv_period = 5000, iv_code = roomCode ann\<rparr>]
   \<and> timers (snd (step (CloseVoting (Inr tie_answer) (Inl None)) mounted_open)) \<noteq> []
   \<and> calls (fst (step (Tick 0 (Inl None))
        (snd (step (CloseVoting (Inr tie_answer) (Inl None)) mounted_open))))
       = [Get (room_url (roomCode ann))]"
  by (simp add: mounted_open_eq lunch_state_eq closeVoting_def tie_answer_def Let_def
      handle_def apply_trace_def loadRoom_calls)

subsection \<open>A tie waits for its tiebreaker\<close>




lemma handle_fst [simp]: "fst (handle res v) = fst res"
  by (simp add: handle_def)











end
